theory Spec2Isabelle
  imports Complex_Main
begin

text \<open>
  A model of \<^verbatim>\<open>my_calculate_fid.py\<close>, which computes the Frechet Inception Distance between
  the features of reference images and of images sampled from a flow model. The three
  functions of the file are embedded as HOL functions: \<open>calculate_frechet_distance\<close>,
  \<open>calculate_activation_statistics\<close> and \<open>calculate_fid\<close>. What the file takes from
  libraries and from the rest of the repository without defining it (the matrix square
  root, the covariance, the two networks, the random generator, \<^verbatim>\<open>calc_z_shapes\<close>) is a
  parameter of the model; the array operations of numpy and torch that the file calls are
  modelled as documented. A raised exception is a value of type \<open>error\<close>.
\<close>

section \<open>Floating-point values\<close>

text \<open>
  The numbers of \<^verbatim>\<open>my_calculate_fid.py\<close> are IEEE doubles. The model keeps the special
  values (the infinities and NaN), because \<^verbatim>\<open>np.isfinite\<close> and \<^verbatim>\<open>np.allclose\<close> branch on
  them, and computes with exact reals on the finite values: rounding, overflow and the
  sign of zero are not modelled.
\<close>

datatype float = Fin real | PInf | NInf | NaN

fun isfinite :: "float \<Rightarrow> bool" where
  "isfinite (Fin r) = True"
| "isfinite x = False"

fun fneg :: "float \<Rightarrow> float" where
  "fneg (Fin r) = Fin (- r)"
| "fneg PInf = NInf"
| "fneg NInf = PInf"
| "fneg NaN = NaN"

fun fadd :: "float \<Rightarrow> float \<Rightarrow> float" where
  "fadd NaN y = NaN"
| "fadd x NaN = NaN"
| "fadd (Fin a) (Fin b) = Fin (a + b)"
| "fadd PInf NInf = NaN"
| "fadd NInf PInf = NaN"
| "fadd PInf y = PInf"
| "fadd x PInf = PInf"
| "fadd NInf y = NInf"
| "fadd x NInf = NInf"

definition fsub :: "float \<Rightarrow> float \<Rightarrow> float" where
  "fsub x y = fadd x (fneg y)"

fun fsgn :: "float \<Rightarrow> real" where
  "fsgn (Fin r) = sgn r"
| "fsgn PInf = 1"
| "fsgn NInf = - 1"
| "fsgn NaN = 0"

fun fmul :: "float \<Rightarrow> float \<Rightarrow> float" where
  "fmul NaN y = NaN"
| "fmul x NaN = NaN"
| "fmul (Fin a) (Fin b) = Fin (a * b)"
| "fmul x y = (if fsgn x * fsgn y = 0 then NaN else if 0 < fsgn x * fsgn y then PInf else NInf)"

fun fabs :: "float \<Rightarrow> float" where
  "fabs (Fin r) = Fin \<bar>r\<bar>"
| "fabs PInf = PInf"
| "fabs NInf = PInf"
| "fabs NaN = NaN"

text \<open>\<^verbatim>\<open>np.max\<close> of two values: a NaN wins.\<close>

fun fmax :: "float \<Rightarrow> float \<Rightarrow> float" where
  "fmax NaN y = NaN"
| "fmax x NaN = NaN"
| "fmax PInf y = PInf"
| "fmax x PInf = PInf"
| "fmax NInf y = y"
| "fmax x NInf = x"
| "fmax (Fin a) (Fin b) = Fin (max a b)"

text \<open>A sum divided by a count of elements, as \<^verbatim>\<open>ndarray.mean\<close> does; a count of 0 divides by zero.\<close>

fun fdiv_count :: "float \<Rightarrow> nat \<Rightarrow> float" where
  "fdiv_count (Fin r) n =
     (if n = 0 then (if r = 0 then NaN else if 0 < r then PInf else NInf)
      else Fin (r / real n))"
| "fdiv_count x n = x"

definition fsum :: "float list \<Rightarrow> float" where
  "fsum xs = foldr fadd xs (Fin 0)"

text \<open>
  One element of \<^verbatim>\<open>np.allclose(x, 0, atol=1e-3)\<close>: \<^verbatim>\<open>|x - 0| <= atol + rtol * |0|\<close> for a
  finite \<^verbatim>\<open>x\<close>; an infinity or a NaN is never close to 0.
\<close>

fun isclose0 :: "float \<Rightarrow> bool" where
  "isclose0 (Fin r) = (\<bar>r\<bar> \<le> 1 / 1000)"
| "isclose0 x = False"

section \<open>Arrays\<close>

text \<open>
  A matrix is its two dimensions and its entries by index; only the entries inside the
  dimensions are read. An \<^verbatim>\<open>ndarray\<close> of the model has rank 0, 1 or 2: arrays of a higher
  rank are outside the model.
\<close>

datatype 'a matrix = Matrix (nrows: nat) (ncols: nat) (entry: "nat \<Rightarrow> nat \<Rightarrow> 'a")

datatype ndarray = Arr0 float | Arr1 "float list" | Arr2 "float matrix"

datatype error =
    AssertionError string
  | ShapesNotAligned
  | SqrtmFailed
  | ImaginaryComponent float
  | ReshapeError
  | StackError
  | ItemError

fun shape :: "ndarray \<Rightarrow> nat list" where
  "shape (Arr0 x) = []"
| "shape (Arr1 xs) = [length xs]"
| "shape (Arr2 m) = [nrows m, ncols m]"

fun atleast_1d :: "ndarray \<Rightarrow> ndarray" where
  "atleast_1d (Arr0 x) = Arr1 [x]"
| "atleast_1d a = a"

text \<open>
  \<^verbatim>\<open>np.atleast_2d\<close>: a scalar becomes a 1 x 1 matrix, a vector of length n a 1 x n matrix.
  In a model of rank at most 2 the result always has rank 2, so it is returned as a matrix.
\<close>

fun atleast_2d :: "ndarray \<Rightarrow> float matrix" where
  "atleast_2d (Arr0 x) = Matrix 1 1 (\<lambda>i j. x)"
| "atleast_2d (Arr1 xs) = Matrix 1 (length xs) (\<lambda>i j. xs ! j)"
| "atleast_2d (Arr2 m) = m"

definition shape2 :: "'a matrix \<Rightarrow> nat list" where
  "shape2 m = [nrows m, ncols m]"

text \<open>\<^verbatim>\<open>a.dot(b)\<close> of two matrices; numpy raises ValueError when the shapes are not aligned.\<close>

definition matmul :: "float matrix \<Rightarrow> float matrix \<Rightarrow> error + float matrix" where
  "matmul a b =
     (if ncols a = nrows b
      then Inr (Matrix (nrows a) (ncols b)
                  (\<lambda>i j. fsum (map (\<lambda>k. fmul (entry a i k) (entry b k j)) [0..<ncols a])))
      else Inl ShapesNotAligned)"

definition diagonal :: "'a matrix \<Rightarrow> 'a list" where
  "diagonal m = map (\<lambda>i. entry m i i) [0..<min (nrows m) (ncols m)]"

definition trace :: "float matrix \<Rightarrow> float" where
  "trace m = fsum (diagonal m)"

definition eye :: "nat \<Rightarrow> float matrix" where
  "eye n = Matrix n n (\<lambda>i j. if i = j then Fin 1 else Fin 0)"

definition smul :: "float matrix \<Rightarrow> float \<Rightarrow> float matrix" where
  "smul m c = Matrix (nrows m) (ncols m) (\<lambda>i j. fmul (entry m i j) c)"

text \<open>
  \<^verbatim>\<open>a + b\<close> of two matrices with numpy's broadcasting: along each axis the lengths are
  equal, or one of them is 1 and that operand is repeated.
\<close>

definition broadcast_dim :: "nat \<Rightarrow> nat \<Rightarrow> nat option" where
  "broadcast_dim m n =
     (if m = n then Some m else if m = 1 then Some n else if n = 1 then Some m else None)"

definition madd :: "float matrix \<Rightarrow> float matrix \<Rightarrow> error + float matrix" where
  "madd a b =
     (case (broadcast_dim (nrows a) (nrows b), broadcast_dim (ncols a) (ncols b)) of
        (Some r, Some c) \<Rightarrow>
          Inr (Matrix r c
                 (\<lambda>i j. fadd (entry a (if nrows a = 1 then 0 else i) (if ncols a = 1 then 0 else j))
                              (entry b (if nrows b = 1 then 0 else i) (if ncols b = 1 then 0 else j))))
      | _ \<Rightarrow> Inl ShapesNotAligned)"

text \<open>
  \<^verbatim>\<open>mu1 - mu2\<close>. The source subtracts after asserting that the two shapes are equal, so
  no broadcasting takes place; the last equation is never reached from there.
\<close>

fun sub_same :: "ndarray \<Rightarrow> ndarray \<Rightarrow> ndarray" where
  "sub_same (Arr0 x) (Arr0 y) = Arr0 (fsub x y)"
| "sub_same (Arr1 xs) (Arr1 ys) = Arr1 (map2 fsub xs ys)"
| "sub_same (Arr2 a) (Arr2 b) =
     Arr2 (Matrix (nrows a) (ncols a) (\<lambda>i j. fsub (entry a i j) (entry b i j)))"
| "sub_same a b = a"

text \<open>
  \<^verbatim>\<open>diff.dot(diff)\<close>: the inner product of a vector with itself (a scalar), the matrix
  product of a matrix with itself.
\<close>

fun dot_self :: "ndarray \<Rightarrow> error + ndarray" where
  "dot_self (Arr0 x) = Inr (Arr0 (fmul x x))"
| "dot_self (Arr1 xs) = Inr (Arr0 (fsum (map2 fmul xs xs)))"
| "dot_self (Arr2 m) = map_sum id Arr2 (matmul m m)"

text \<open>An array plus or minus a scalar: the scalar is broadcast over every element.\<close>

fun map_array :: "(float \<Rightarrow> float) \<Rightarrow> ndarray \<Rightarrow> ndarray" where
  "map_array f (Arr0 x) = Arr0 (f x)"
| "map_array f (Arr1 xs) = Arr1 (map f xs)"
| "map_array f (Arr2 m) = Arr2 (Matrix (nrows m) (ncols m) (\<lambda>i j. f (entry m i j)))"

definition add_scalar :: "ndarray \<Rightarrow> float \<Rightarrow> ndarray" where
  "add_scalar a c = map_array (\<lambda>x. fadd x c) a"

definition sub_scalar :: "ndarray \<Rightarrow> float \<Rightarrow> ndarray" where
  "sub_scalar a c = map_array (\<lambda>x. fsub x c) a"

section \<open>The matrix square root and its result\<close>

text \<open>
  \<^verbatim>\<open>scipy.linalg.sqrtm\<close> is a library function: the model takes it as a parameter. It
  returns a real or a complex matrix (\<^verbatim>\<open>np.iscomplexobj\<close> tells them apart), or raises
  (\<open>None\<close>). A complex entry is the pair of its real and imaginary parts.
\<close>

datatype covmean = RealM "float matrix" | ComplexM "(float \<times> float) matrix"

type_synonym sqrtm_fun = "float matrix \<Rightarrow> covmean option"

definition entries :: "'a matrix \<Rightarrow> 'a list" where
  "entries m = concat (map (\<lambda>i. map (\<lambda>j. entry m i j) [0..<ncols m]) [0..<nrows m])"

fun all_finite :: "covmean \<Rightarrow> bool" where
  "all_finite (RealM m) = list_all isfinite (entries m)"
| "all_finite (ComplexM m) = list_all (\<lambda>z. isfinite (fst z) \<and> isfinite (snd z)) (entries m)"

definition imag :: "(float \<times> float) matrix \<Rightarrow> float matrix" where
  "imag m = Matrix (nrows m) (ncols m) (\<lambda>i j. snd (entry m i j))"

definition real_part :: "(float \<times> float) matrix \<Rightarrow> float matrix" where
  "real_part m = Matrix (nrows m) (ncols m) (\<lambda>i j. fst (entry m i j))"

text \<open>
  \<^verbatim>\<open>np.max(np.abs(covmean.imag))\<close>. \<^verbatim>\<open>np.max\<close> of an empty array raises; the source calls it
  only after a diagonal element failed the closeness test, so the array is not empty.
\<close>

definition max_abs_imag :: "(float \<times> float) matrix \<Rightarrow> float" where
  "max_abs_imag m =
     (case map fabs (entries (imag m)) of [] \<Rightarrow> NaN | x # xs \<Rightarrow> fold fmax xs x)"

text \<open>The events of a run that a caller can observe besides the result.\<close>

datatype event = SqrtmCall "float matrix" | PrintSingular float

section \<open>calculate_frechet_distance\<close>

text \<open>Lines 45 to 52: the square root of the product, and the one retry.\<close>

definition compute_covmean ::
  "sqrtm_fun \<Rightarrow> float matrix \<Rightarrow> float matrix \<Rightarrow> float \<Rightarrow> event list \<times> (error + covmean)" where
  "compute_covmean sqrtm sigma1 sigma2 eps =
     (case matmul sigma1 sigma2 of
        Inl e \<Rightarrow> ([], Inl e)
      | Inr p \<Rightarrow>
         (case sqrtm p of
            None \<Rightarrow> ([SqrtmCall p], Inl SqrtmFailed)
          | Some covmean \<Rightarrow>
              if \<not> all_finite covmean then
                (let offset = smul (eye (nrows sigma1)) eps in
                 case madd sigma1 offset of
                   Inl e \<Rightarrow> ([SqrtmCall p, PrintSingular eps], Inl e)
                 | Inr a \<Rightarrow>
                    (case madd sigma2 offset of
                       Inl e \<Rightarrow> ([SqrtmCall p, PrintSingular eps], Inl e)
                     | Inr b \<Rightarrow>
                        (case matmul a b of
                           Inl e \<Rightarrow> ([SqrtmCall p, PrintSingular eps], Inl e)
                         | Inr p2 \<Rightarrow>
                            ([SqrtmCall p, PrintSingular eps, SqrtmCall p2],
                             case sqrtm p2 of None \<Rightarrow> Inl SqrtmFailed | Some covmean2 \<Rightarrow> Inr covmean2))))
              else ([SqrtmCall p], Inr covmean)))"

text \<open>Lines 54 to 59: the imaginary part is discarded when it is negligible on the diagonal.\<close>

fun discard_imag :: "covmean \<Rightarrow> error + float matrix" where
  "discard_imag (RealM m) = Inr m"
| "discard_imag (ComplexM m) =
     (if \<not> list_all isclose0 (diagonal (imag m))
      then Inl (ImaginaryComponent (max_abs_imag m))
      else Inr (real_part m))"

text \<open>Lines 61 to 64: the returned expression, evaluated from left to right.\<close>

definition frechet_value ::
  "ndarray \<Rightarrow> float matrix \<Rightarrow> float matrix \<Rightarrow> float matrix \<Rightarrow> error + ndarray" where
  "frechet_value diff sigma1 sigma2 covmean =
     (let tr_covmean = trace covmean in
      case dot_self diff of
        Inl e \<Rightarrow> Inl e
      | Inr dd \<Rightarrow>
          Inr (sub_scalar (add_scalar (add_scalar dd (trace sigma1)) (trace sigma2))
                 (fmul (Fin 2) tr_covmean)))"

definition calculate_frechet_distance ::
  "sqrtm_fun \<Rightarrow> ndarray \<Rightarrow> ndarray \<Rightarrow> ndarray \<Rightarrow> ndarray \<Rightarrow> float \<Rightarrow> event list \<times> (error + ndarray)" where
  "calculate_frechet_distance sqrtm mu1 sigma1 mu2 sigma2 eps =
     (let mu1 = atleast_1d mu1;
          mu2 = atleast_1d mu2;
          sigma1 = atleast_2d sigma1;
          sigma2 = atleast_2d sigma2
      in if shape mu1 \<noteq> shape mu2
         then ([], Inl (AssertionError ''Training and test mean vectors have different lengths''))
         else if shape2 sigma1 \<noteq> shape2 sigma2
         then ([], Inl (AssertionError ''Training and test covariances have different dimensions''))
         else
           (let diff = sub_same mu1 mu2 in
            case compute_covmean sqrtm sigma1 sigma2 eps of
              (evs, Inl e) \<Rightarrow> (evs, Inl e)
            | (evs, Inr covmean) \<Rightarrow>
               (case discard_imag covmean of
                  Inl e \<Rightarrow> (evs, Inl e)
                | Inr cm \<Rightarrow> (evs, frechet_value diff sigma1 sigma2 cm))))"

text \<open>The default of the keyword argument \<^verbatim>\<open>eps=1e-6\<close>.\<close>

definition default_eps :: float where
  "default_eps = Fin (1 / 1000000)"

section \<open>Tensors\<close>

text \<open>
  A torch tensor is its shape and its elements in row-major order; in a well-formed
  tensor the number of elements is the product of the shape.
\<close>

datatype tensor = Tensor (tshape: "nat list") (tdata: "float list")

definition numel :: "tensor \<Rightarrow> nat" where
  "numel t = length (tdata t)"

definition wf_tensor :: "tensor \<Rightarrow> bool" where
  "wf_tensor t = (length (tdata t) = prod_list (tshape t))"

text \<open>
  \<^verbatim>\<open>t.reshape(n, -1)\<close> and \<^verbatim>\<open>t.view(n, -1)\<close> of a contiguous tensor: torch infers the second
  dimension when \<open>n\<close> is positive and divides the number of elements, and raises
  otherwise (also for \<open>n = 0\<close>, where the inferred dimension would be ambiguous).
\<close>

definition reshape_rows :: "nat \<Rightarrow> tensor \<Rightarrow> error + tensor" where
  "reshape_rows n t =
     (if 0 < n \<and> numel t mod n = 0 then Inr (Tensor [n, numel t div n] (tdata t))
      else Inl ReshapeError)"

text \<open>\<^verbatim>\<open>torch.stack\<close>: a non-empty list of tensors of one shape, along a new first axis.\<close>

definition stack :: "tensor list \<Rightarrow> error + tensor" where
  "stack ts =
     (case ts of
        [] \<Rightarrow> Inl StackError
      | t # rest \<Rightarrow>
          if list_all (\<lambda>u. tshape u = tshape t) rest
          then Inr (Tensor (length ts # tshape t) (concat (map tdata ts)))
          else Inl StackError)"

text \<open>A tensor times a Python float.\<close>

definition tmul :: "tensor \<Rightarrow> float \<Rightarrow> tensor" where
  "tmul t c = Tensor (tshape t) (map (\<lambda>x. fmul x c) (tdata t))"

text \<open>
  \<^verbatim>\<open>.numpy()\<close> of a tensor of rank 2, which is what \<^verbatim>\<open>view(n, -1)\<close> returns; the second
  case is not reached from the source.
\<close>

definition numpy :: "tensor \<Rightarrow> float matrix" where
  "numpy t =
     (case tshape t of
        [r, c] \<Rightarrow> Matrix r c (\<lambda>i j. tdata t ! (i * c + j))
      | _ \<Rightarrow> Matrix 0 0 (\<lambda>i j. NaN))"

text \<open>\<^verbatim>\<open>a.mean(axis=1)\<close> of a matrix: one mean per row, taken over the columns.\<close>

definition mean_axis1 :: "float matrix \<Rightarrow> ndarray" where
  "mean_axis1 m =
     Arr1 (map (\<lambda>i. fdiv_count (fsum (map (\<lambda>j. entry m i j) [0..<ncols m])) (ncols m))
             [0..<nrows m])"

text \<open>
  \<^verbatim>\<open>a.mean(axis=0)\<close>, the mean across the rows: one mean per column. The source does not
  call it; it is what the specification describes as the mean taken across samples.
\<close>

definition mean_axis0 :: "float matrix \<Rightarrow> ndarray" where
  "mean_axis0 m =
     Arr1 (map (\<lambda>j. fdiv_count (fsum (map (\<lambda>i. entry m i j) [0..<nrows m])) (nrows m))
             [0..<ncols m])"

text \<open>\<^verbatim>\<open>a.ravel()\<close>: the elements of an array in row-major order.\<close>

fun ravel :: "ndarray \<Rightarrow> float list" where
  "ravel (Arr0 x) = [x]"
| "ravel (Arr1 xs) = xs"
| "ravel (Arr2 m) = entries m"

text \<open>\<^verbatim>\<open>ndarray.item()\<close>: the only element of an array of size 1, ValueError otherwise.\<close>

fun item :: "ndarray \<Rightarrow> error + float" where
  "item (Arr0 x) = Inr x"
| "item (Arr1 xs) = (case xs of [x] \<Rightarrow> Inr x | _ \<Rightarrow> Inl ItemError)"
| "item (Arr2 m) = (if nrows m = 1 \<and> ncols m = 1 then Inr (entry m 0 0) else Inl ItemError)"

section \<open>calculate_activation_statistics\<close>

text \<open>
  The configuration object, and what the function gets from outside the file: the
  generative model and the classifier, \<^verbatim>\<open>calc_z_shapes\<close> of \<^verbatim>\<open>my_utils\<close>, torch's random
  generator and the two library routines. \<open>features x\<close> stands for \<^verbatim>\<open>inception(x)[0]\<close>,
  \<open>randn k s\<close> for the result of the \<open>k\<close>-th call of \<^verbatim>\<open>torch.randn\<close> of the run, made
  with shape \<open>s\<close>, and \<open>np_cov a\<close> for \<^verbatim>\<open>np.cov(a, rowvar=False)\<close>. Moving data between
  devices, \<^verbatim>\<open>eval()\<close> and \<^verbatim>\<open>detach()\<close> do not change a value and are left out.
\<close>

record config =
  batch :: nat
  img_size :: nat
  n_flow :: nat
  n_block :: nat
  temp :: float

record env =
  calc_z_shapes :: "nat \<Rightarrow> nat \<Rightarrow> nat \<Rightarrow> nat \<Rightarrow> nat list list"
  randn :: "nat \<Rightarrow> nat list \<Rightarrow> tensor"
  reverse :: "tensor list \<Rightarrow> tensor"
  features :: "tensor \<Rightarrow> tensor"
  np_cov :: "float matrix \<Rightarrow> ndarray"
  linalg_sqrtm :: sqrtm_fun

text \<open>
  The state of the loop over the data loader: the two lists of feature tensors, the
  number of \<^verbatim>\<open>torch.randn\<close> calls made so far, and what lines 95 to 101 have printed
  (the size of a generated batch with NaNs, and their number).
\<close>

record loop_state =
  true_vecs :: "tensor list"
  ae_vecs :: "tensor list"
  draws :: nat
  printed :: "(nat list \<times> nat) list"

definition init_state :: loop_state where
  "init_state = \<lparr>true_vecs = [], ae_vecs = [], draws = 0, printed = []\<rparr>"

text \<open>Line 85: the latent shapes, the same for every batch.\<close>

definition z_shapes_of :: "env \<Rightarrow> config \<Rightarrow> nat list list" where
  "z_shapes_of e cfg = calc_z_shapes e 3 (img_size cfg) (n_flow cfg) (n_block cfg)"

text \<open>Lines 84 to 88: one noise tensor per latent shape, each from a new call of randn.\<close>

fun sample_z :: "env \<Rightarrow> config \<Rightarrow> nat \<Rightarrow> nat list list \<Rightarrow> tensor list" where
  "sample_z e cfg k [] = []"
| "sample_z e cfg k (z # zs) =
     tmul (randn e k (batch cfg # z)) (temp cfg) # sample_z e cfg (Suc k) zs"

fun isnan :: "float \<Rightarrow> bool" where
  "isnan NaN = True"
| "isnan x = False"

text \<open>Lines 78 to 102: the body of the loop for one batch of images.\<close>

definition batch_step :: "env \<Rightarrow> config \<Rightarrow> tensor \<Rightarrow> loop_state \<Rightarrow> error + loop_state" where
  "batch_step e cfg img st =
     (let bs = batch cfg in
      case reshape_rows bs (features e img) of
        Inl err \<Rightarrow> Inl err
      | Inr tv \<Rightarrow>
         (let z_shapes = z_shapes_of e cfg;
              z_sample = sample_z e cfg (draws st) z_shapes;
              pics = reverse e z_sample;
              nan_values = length (filter isnan (tdata pics));
              out = (if 0 < nan_values then printed st @ [(tshape pics, nan_values)]
                     else printed st)
          in case reshape_rows bs (features e pics) of
               Inl err \<Rightarrow> Inl err
             | Inr av \<Rightarrow>
                 Inr \<lparr>true_vecs = true_vecs st @ [tv], ae_vecs = ae_vecs st @ [av],
                      draws = draws st + length z_shapes, printed = out\<rparr>))"

fun run_batches ::
  "env \<Rightarrow> config \<Rightarrow> (tensor \<times> 'l) list \<Rightarrow> loop_state \<Rightarrow> error + loop_state" where
  "run_batches e cfg [] st = Inr st"
| "run_batches e cfg ((img, label) # rest) st =
     (case batch_step e cfg img st of
        Inl err \<Rightarrow> Inl err
      | Inr st' \<Rightarrow> run_batches e cfg rest st')"

text \<open>Lines 69 to 105: the two stacked feature arrays \<^verbatim>\<open>true_data\<close> and \<^verbatim>\<open>ae_data\<close>.\<close>

definition stacked_features ::
  "env \<Rightarrow> config \<Rightarrow> (tensor \<times> 'l) list \<Rightarrow> error + float matrix \<times> float matrix" where
  "stacked_features e cfg dataloader =
     (let bs = batch cfg in
      case run_batches e cfg dataloader init_state of
        Inl err \<Rightarrow> Inl err
      | Inr st \<Rightarrow>
         (case stack (true_vecs st) of
            Inl err \<Rightarrow> Inl err
          | Inr ts \<Rightarrow>
             (case reshape_rows (bs * length dataloader) ts of
                Inl err \<Rightarrow> Inl err
              | Inr tv \<Rightarrow>
                 (case stack (ae_vecs st) of
                    Inl err \<Rightarrow> Inl err
                  | Inr gs \<Rightarrow>
                     (case reshape_rows (bs * length dataloader) gs of
                        Inl err \<Rightarrow> Inl err
                      | Inr av \<Rightarrow> Inr (numpy tv, numpy av))))))"

text \<open>Lines 107 to 113: the statistics of the two stacked arrays.\<close>

definition calculate_activation_statistics ::
  "env \<Rightarrow> config \<Rightarrow> (tensor \<times> 'l) list \<Rightarrow> error + ndarray \<times> ndarray \<times> ndarray \<times> ndarray" where
  "calculate_activation_statistics e cfg dataloader =
     (case stacked_features e cfg dataloader of
        Inl err \<Rightarrow> Inl err
      | Inr (true_data, ae_data) \<Rightarrow>
         (let mu1 = mean_axis1 true_data;
              mu2 = mean_axis1 ae_data;
              s1 = np_cov e true_data;
              s2 = np_cov e ae_data
          in Inr (mu1, s1, mu2, s2)))"

section \<open>calculate_fid\<close>

definition calculate_fid :: "env \<Rightarrow> config \<Rightarrow> (tensor \<times> 'l) list \<Rightarrow> error + float" where
  "calculate_fid e cfg dataloader =
     (case calculate_activation_statistics e cfg dataloader of
        Inl err \<Rightarrow> Inl err
      | Inr (m1, s1, m2, s2) \<Rightarrow>
         (case snd (calculate_frechet_distance (linalg_sqrtm e) m1 s1 m2 s2 default_eps) of
            Inl err \<Rightarrow> Inl err
          | Inr fid_value \<Rightarrow> item fid_value))"

section \<open>Concrete square-root functions for the examples\<close>

text \<open>
  Two stand-ins for \<^verbatim>\<open>linalg.sqrtm\<close> on 1 x 1 inputs, used where a theorem is applied to a
  concrete run: one answers 6 with an imaginary part \<open>y\<close>, one answers NaN on the product 36
  and 6 on every other input.
\<close>

definition sqrtm_imag :: "float \<Rightarrow> sqrtm_fun" where
  "sqrtm_imag y p = Some (ComplexM (Matrix 1 1 (\<lambda>i j. (Fin 6, y))))"

definition sqrtm_singular :: sqrtm_fun where
  "sqrtm_singular p =
     (if entry p 0 0 = Fin 36 then Some (RealM (Matrix 1 1 (\<lambda>i j. NaN)))
      else Some (RealM (Matrix 1 1 (\<lambda>i j. Fin 6))))"

text \<open>The square root of a zero matrix: the zero matrix of the same shape.\<close>

definition sqrtm_zero :: sqrtm_fun where
  "sqrtm_zero p = Some (RealM (Matrix (nrows p) (ncols p) (\<lambda>i j. Fin 0)))"

section \<open>A concrete run for the examples\<close>

text \<open>
  \<^verbatim>\<open>np.cov(a, rowvar=False)\<close> as numpy documents it, for the examples: the columns of \<open>a\<close> are
  the variables and its rows the observations (an array of a single row is not
  transposed), the products of the centred columns are scaled by \<open>1 / (N - 1)\<close>, by
  infinity for \<open>N \<le> 1\<close>, and a 1 x 1 result is squeezed to a scalar.
\<close>

definition cov_rowvar_false :: "float matrix \<Rightarrow> ndarray" where
  "cov_rowvar_false a =
     (let x = (if nrows a \<noteq> 1 then Matrix (ncols a) (nrows a) (\<lambda>i k. entry a k i) else a);
          nobs = ncols x;
          avg = (\<lambda>i. fdiv_count (fsum (map (\<lambda>k. entry x i k) [0..<nobs])) nobs);
          xc = (\<lambda>i k. fsub (entry x i k) (avg i));
          scale = (if nobs \<le> 1 then PInf else Fin (1 / real (nobs - 1)));
          c = (\<lambda>i j. fmul (fsum (map (\<lambda>k. fmul (xc i k) (xc j k)) [0..<nobs])) scale)
      in if nrows x = 1 then Arr0 (c 0 0) else Arr2 (Matrix (nrows x) (nrows x) c))"

text \<open>
  A small environment: the classifier returns its input as the features, the generator
  returns its first latent tensor, every latent has the shape \<open>[c]\<close> of the channel
  count, the \<open>k\<close>-th noise tensor is filled with the number \<open>k\<close>.
\<close>

definition example_env :: env where
  "example_env =
     \<lparr>calc_z_shapes = (\<lambda>c s f b. [[c]]),
      randn = (\<lambda>k s. Tensor s (replicate (prod_list s) (Fin (real k)))),
      reverse = (\<lambda>zs. case zs of [] \<Rightarrow> Tensor [0] [] | z # rest \<Rightarrow> z),
      features = (\<lambda>t. t),
      np_cov = cov_rowvar_false,
      linalg_sqrtm = sqrtm_zero\<rparr>"

definition example_config :: "nat \<Rightarrow> config" where
  "example_config bs = \<lparr>batch = bs, img_size = 4, n_flow = 1, n_block = 1, temp = Fin 1\<rparr>"

text \<open>One batch of two images with three features each.\<close>

definition two_images :: tensor where
  "two_images = Tensor [2, 3] [Fin 1, Fin 2, Fin 3, Fin 5, Fin 6, Fin 7]"

text \<open>One batch of two images with six features each.\<close>

definition two_wide_images :: tensor where
  "two_wide_images = Tensor [2, 6] (map Fin [1, 2, 3, 4, 5, 6, 7, 8, 9, 10, 11, 12])"

section \<open>Properties of calculate_frechet_distance\<close>

subsection \<open>Which stage raises what\<close>

lemma matmul_not_assert: "matmul a b \<noteq> Inl (AssertionError msg)"
  by (simp add: matmul_def)

lemma madd_not_assert: "madd a b \<noteq> Inl (AssertionError msg)"
  by (simp add: madd_def split: option.splits)

lemma compute_covmean_not_assert:
  "snd (compute_covmean sqrtm s1 s2 eps) \<noteq> Inl (AssertionError msg)"
  using matmul_not_assert madd_not_assert
  by (auto simp: compute_covmean_def Let_def split: sum.splits option.splits)

lemma discard_imag_not_assert: "discard_imag c \<noteq> Inl (AssertionError msg)"
  by (cases c) auto

lemma dot_self_not_assert: "dot_self d \<noteq> Inl (AssertionError msg)"
  by (cases d) (auto simp: matmul_def)

lemma frechet_value_not_assert: "frechet_value d s1 s2 c \<noteq> Inl (AssertionError msg)"
  using dot_self_not_assert
  by (auto simp: frechet_value_def Let_def split: sum.splits)


lemma compute_covmean_finite:
  assumes "matmul s1 s2 = Inr p" "sqrtm p = Some c" "all_finite c"
  shows "compute_covmean sqrtm s1 s2 eps = ([SqrtmCall p], Inr c)"
  using assms by (simp add: compute_covmean_def)

lemma no_assertion_error:
  assumes "shape (atleast_1d mu1) = shape (atleast_1d mu2)"
    and "shape2 (atleast_2d sigma1) = shape2 (atleast_2d sigma2)"
  shows "snd (calculate_frechet_distance sqrtm mu1 sigma1 mu2 sigma2 eps) \<noteq> Inl (AssertionError msg)"
proof -
  obtain evs r where cc: "compute_covmean sqrtm (atleast_2d sigma1) (atleast_2d sigma2) eps = (evs, r)"
    by (cases "compute_covmean sqrtm (atleast_2d sigma1) (atleast_2d sigma2) eps")
  have r: "r \<noteq> Inl (AssertionError msg)"
    using compute_covmean_not_assert [of sqrtm "atleast_2d sigma1" "atleast_2d sigma2" eps msg] cc
    by simp
  show ?thesis
    using assms cc r discard_imag_not_assert frechet_value_not_assert
    by (auto simp: calculate_frechet_distance_def Let_def split: sum.splits)
qed

lemma atleast_2d_Arr2: "atleast_2d (Arr2 m) = m"
  by simp

subsection \<open>The shape assertions\<close>

text \<open>
  C5. The function fails with an assertion error, before any square root is computed,
  whenever the promoted means differ in shape or the promoted covariances differ in shape;
  when both pairs of shapes are equal, no assertion error comes out of the function.
\<close>

theorem shape_assertions:
  "(shape (atleast_1d mu1) \<noteq> shape (atleast_1d mu2) \<longrightarrow>
      calculate_frechet_distance sqrtm mu1 sigma1 mu2 sigma2 eps =
        ([], Inl (AssertionError ''Training and test mean vectors have different lengths'')))
   \<and> (shape (atleast_1d mu1) = shape (atleast_1d mu2) \<and>
      shape2 (atleast_2d sigma1) \<noteq> shape2 (atleast_2d sigma2) \<longrightarrow>
      calculate_frechet_distance sqrtm mu1 sigma1 mu2 sigma2 eps =
        ([], Inl (AssertionError ''Training and test covariances have different dimensions'')))
   \<and> (shape (atleast_1d mu1) = shape (atleast_1d mu2) \<and>
      shape2 (atleast_2d sigma1) = shape2 (atleast_2d sigma2) \<longrightarrow>
      (\<forall>msg. snd (calculate_frechet_distance sqrtm mu1 sigma1 mu2 sigma2 eps)
               \<noteq> Inl (AssertionError msg)))"
  using no_assertion_error [of mu1 mu2 sigma1 sigma2 sqrtm eps]
  by (simp add: calculate_frechet_distance_def Let_def)

theorem shape_assertions_witness:
  "calculate_frechet_distance (sqrtm_imag (Fin 0))
     (Arr1 [Fin 1, Fin 2]) (Arr2 (Matrix 1 1 (\<lambda>i j. Fin 4)))
     (Arr1 [Fin 3]) (Arr2 (Matrix 1 1 (\<lambda>i j. Fin 9))) default_eps
   = ([], Inl (AssertionError ''Training and test mean vectors have different lengths''))
   \<and> calculate_frechet_distance (sqrtm_imag (Fin 0))
     (Arr1 [Fin 1]) (Arr2 (Matrix 1 1 (\<lambda>i j. Fin 4)))
     (Arr1 [Fin 3]) (Arr1 [Fin 9, Fin 9]) default_eps
   = ([], Inl (AssertionError ''Training and test covariances have different dimensions''))
   \<and> snd (calculate_frechet_distance (sqrtm_imag (Fin 0))
     (Arr1 [Fin 1]) (Arr2 (Matrix 1 1 (\<lambda>i j. Fin 4)))
     (Arr1 [Fin 3]) (Arr2 (Matrix 1 1 (\<lambda>i j. Fin 9))) default_eps)
   \<noteq> Inl (AssertionError ''Training and test covariances have different dimensions'')"
  using shape_assertions [of "Arr1 [Fin 1, Fin 2]" "Arr1 [Fin 3]" "sqrtm_imag (Fin 0)"
      "Arr2 (Matrix 1 1 (\<lambda>i j. Fin 4))" "Arr2 (Matrix 1 1 (\<lambda>i j. Fin 9))" default_eps]
    shape_assertions [of "Arr1 [Fin 1]" "Arr1 [Fin 3]" "sqrtm_imag (Fin 0)"
      "Arr2 (Matrix 1 1 (\<lambda>i j. Fin 4))" "Arr1 [Fin 9, Fin 9]" default_eps]
    shape_assertions [of "Arr1 [Fin 1]" "Arr1 [Fin 3]" "sqrtm_imag (Fin 0)"
      "Arr2 (Matrix 1 1 (\<lambda>i j. Fin 4))" "Arr2 (Matrix 1 1 (\<lambda>i j. Fin 9))" default_eps]
  by (simp add: shape2_def)

subsection \<open>The returned value\<close>

text \<open>
  C1. For mean vectors of equal length and covariance matrices of equal shape, when the
  square root of the product \<^verbatim>\<open>sigma1.dot(sigma2)\<close> is finite and, after the negligible
  imaginary part is discarded, the real matrix \<open>cm\<close>, the function returns
  \<^verbatim>\<open>diff.dot(diff) + trace(sigma1) + trace(sigma2) - 2 * trace(cm)\<close> with
  \<^verbatim>\<open>diff = mu1 - mu2\<close>, after a single call of the square root.
\<close>

theorem frechet_formula:
  assumes mu1: "atleast_1d mu1 = Arr1 xs"
    and mu2: "atleast_1d mu2 = Arr1 ys"
    and len: "length xs = length ys"
    and sig: "shape2 (atleast_2d sigma1) = shape2 (atleast_2d sigma2)"
    and prod: "matmul (atleast_2d sigma1) (atleast_2d sigma2) = Inr p"
    and root: "sqrtm p = Some covmean"
    and fin: "all_finite covmean"
    and re: "discard_imag covmean = Inr cm"
  shows "calculate_frechet_distance sqrtm mu1 sigma1 mu2 sigma2 eps =
           ([SqrtmCall p],
            Inr (Arr0 (fsub (fadd (fadd (fsum (map2 fmul (map2 fsub xs ys) (map2 fsub xs ys)))
                                        (trace (atleast_2d sigma1)))
                                  (trace (atleast_2d sigma2)))
                            (fmul (Fin 2) (trace cm)))))"
proof -
  have cc: "compute_covmean sqrtm (atleast_2d sigma1) (atleast_2d sigma2) eps = ([SqrtmCall p], Inr covmean)"
    using prod root fin by (rule compute_covmean_finite)
  have fv: "frechet_value (Arr1 (map2 fsub xs ys)) (atleast_2d sigma1) (atleast_2d sigma2) cm =
      Inr (Arr0 (fsub (fadd (fadd (fsum (map2 fmul (map2 fsub xs ys) (map2 fsub xs ys)))
                                        (trace (atleast_2d sigma1)))
                                  (trace (atleast_2d sigma2)))
                            (fmul (Fin 2) (trace cm))))"
    by (simp add: frechet_value_def add_scalar_def sub_scalar_def)
  show ?thesis
    using mu1 mu2 len sig cc re fv
    by (simp add: calculate_frechet_distance_def Let_def)
qed

theorem frechet_formula_witness:
  "calculate_frechet_distance (\<lambda>p. Some (RealM (Matrix 1 1 (\<lambda>i j. Fin 6))))
     (Arr1 [Fin 1]) (Arr2 (Matrix 1 1 (\<lambda>i j. Fin 4)))
     (Arr1 [Fin 3]) (Arr2 (Matrix 1 1 (\<lambda>i j. Fin 9))) default_eps
   = ([SqrtmCall (Matrix 1 1 (\<lambda>i j. Fin 36))], Inr (Arr0 (Fin 5)))"
proof -
  have p: "matmul (atleast_2d (Arr2 (Matrix 1 1 (\<lambda>i j. Fin 4)))) (atleast_2d (Arr2 (Matrix 1 1 (\<lambda>i j. Fin 9))))
        = Inr (Matrix 1 1 (\<lambda>i j. Fin 36))"
    by (simp add: matmul_def fsum_def)
  show ?thesis
    using frechet_formula [where sqrtm = "\<lambda>p. Some (RealM (Matrix 1 1 (\<lambda>i j. Fin 6)))"
        and ?mu1.0 = "Arr1 [Fin 1]" and ?mu2.0 = "Arr1 [Fin 3]" and xs = "[Fin 1]" and ys = "[Fin 3]"
        and eps = default_eps and covmean = "RealM (Matrix 1 1 (\<lambda>i j. Fin 6))"
        and cm = "Matrix 1 1 (\<lambda>i j. Fin 6)", OF _ _ _ _ p]
    by (simp add: shape2_def entries_def trace_def diagonal_def fsum_def fsub_def)
qed

subsection \<open>The imaginary component\<close>




subsection \<open>The retry on a singular product\<close>

lemma square_of_aligned:
  assumes sig: "shape2 s1 = shape2 s2" and prod: "matmul s1 s2 = Inr p"
  shows "ncols s1 = nrows s1 \<and> nrows s2 = nrows s1 \<and> ncols s2 = nrows s1"
  using assms by (auto simp: shape2_def matmul_def split: if_splits)

lemma madd_offset:
  assumes sq: "ncols s = n" "nrows s = n"
  shows "\<exists>a. madd s (smul (eye n) eps) = Inr a \<and> nrows a = n \<and> ncols a = n
           \<and> (\<forall>i<n. \<forall>j<n. entry a i j = fadd (entry s i j) (fmul (if i = j then Fin 1 else Fin 0) eps))"
  using sq by (auto simp: madd_def smul_def eye_def broadcast_dim_def)
text \<open>
  C4. When the first square root of \<^verbatim>\<open>sigma1.dot(sigma2)\<close> has a non-finite entry, both
  covariance matrices get \<^verbatim>\<open>eps\<close> times the identity added, the square root is computed
  once more, on the product of the two regularized matrices, and the function goes on with
  that second result whatever it is: the run holds exactly two calls of the square root.
\<close>

theorem single_retry:
  assumes mus: "shape (atleast_1d mu1) = shape (atleast_1d mu2)"
    and sig: "shape2 (atleast_2d sigma1) = shape2 (atleast_2d sigma2)"
    and prod: "matmul (atleast_2d sigma1) (atleast_2d sigma2) = Inr p"
    and root: "sqrtm p = Some c1"
    and nonfin: "\<not> all_finite c1"
  shows "\<exists>a b p2.
           madd (atleast_2d sigma1) (smul (eye (nrows (atleast_2d sigma1))) eps) = Inr a
         \<and> madd (atleast_2d sigma2) (smul (eye (nrows (atleast_2d sigma1))) eps) = Inr b
         \<and> shape2 a = shape2 (atleast_2d sigma1) \<and> shape2 b = shape2 (atleast_2d sigma2)
         \<and> (\<forall>i<nrows a. \<forall>j<ncols a.
               entry a i j = fadd (entry (atleast_2d sigma1) i j) (fmul (if i = j then Fin 1 else Fin 0) eps)
             \<and> entry b i j = fadd (entry (atleast_2d sigma2) i j) (fmul (if i = j then Fin 1 else Fin 0) eps))
         \<and> matmul a b = Inr p2
         \<and> fst (calculate_frechet_distance sqrtm mu1 sigma1 mu2 sigma2 eps)
             = [SqrtmCall p, PrintSingular eps, SqrtmCall p2]
         \<and> snd (calculate_frechet_distance sqrtm mu1 sigma1 mu2 sigma2 eps)
             = (case sqrtm p2 of
                  None \<Rightarrow> Inl SqrtmFailed
                | Some c2 \<Rightarrow>
                   (case discard_imag c2 of
                      Inl e \<Rightarrow> Inl e
                    | Inr cm \<Rightarrow> frechet_value (sub_same (atleast_1d mu1) (atleast_1d mu2))
                                 (atleast_2d sigma1) (atleast_2d sigma2) cm))"
proof -
  let ?s1 = "atleast_2d sigma1" and ?s2 = "atleast_2d sigma2"
  let ?n = "nrows ?s1"
  have sq: "ncols ?s1 = ?n" "nrows ?s2 = ?n" "ncols ?s2 = ?n"
    using square_of_aligned [OF sig prod] by simp_all
  obtain a where a: "madd ?s1 (smul (eye ?n) eps) = Inr a" "nrows a = ?n" "ncols a = ?n"
      "\<forall>i<?n. \<forall>j<?n. entry a i j = fadd (entry ?s1 i j) (fmul (if i = j then Fin 1 else Fin 0) eps)"
    using madd_offset [OF sq(1) refl, of eps] by blast
  obtain b where b: "madd ?s2 (smul (eye ?n) eps) = Inr b" "nrows b = ?n" "ncols b = ?n"
      "\<forall>i<?n. \<forall>j<?n. entry b i j = fadd (entry ?s2 i j) (fmul (if i = j then Fin 1 else Fin 0) eps)"
    using madd_offset [OF sq(3) sq(2), of eps] by blast
  obtain p2 where p2: "matmul a b = Inr p2"
    using a(3) b(2) by (simp add: matmul_def)
  have cc: "compute_covmean sqrtm ?s1 ?s2 eps =
      ([SqrtmCall p, PrintSingular eps, SqrtmCall p2],
       case sqrtm p2 of None \<Rightarrow> Inl SqrtmFailed | Some c2 \<Rightarrow> Inr c2)"
    using prod root nonfin a(1) b(1) p2 by (simp add: compute_covmean_def Let_def)
  have run: "calculate_frechet_distance sqrtm mu1 sigma1 mu2 sigma2 eps =
      (case compute_covmean sqrtm ?s1 ?s2 eps of
         (evs, Inl e) \<Rightarrow> (evs, Inl e)
       | (evs, Inr covmean) \<Rightarrow>
          (case discard_imag covmean of
             Inl e \<Rightarrow> (evs, Inl e)
           | Inr cm \<Rightarrow> (evs, frechet_value (sub_same (atleast_1d mu1) (atleast_1d mu2)) ?s1 ?s2 cm)))"
    using mus sig by (simp add: calculate_frechet_distance_def Let_def)
  have shp: "shape2 a = shape2 ?s1" "shape2 b = shape2 ?s2"
    using a(2,3) b(2,3) sq by (simp_all add: shape2_def)
  have ents: "\<forall>i<nrows a. \<forall>j<ncols a.
               entry a i j = fadd (entry ?s1 i j) (fmul (if i = j then Fin 1 else Fin 0) eps)
             \<and> entry b i j = fadd (entry ?s2 i j) (fmul (if i = j then Fin 1 else Fin 0) eps)"
    using a(2,3,4) b(4) by simp
  have f: "fst (calculate_frechet_distance sqrtm mu1 sigma1 mu2 sigma2 eps)
             = [SqrtmCall p, PrintSingular eps, SqrtmCall p2]"
    by (simp add: run cc split: option.splits sum.splits)
  have s: "snd (calculate_frechet_distance sqrtm mu1 sigma1 mu2 sigma2 eps)
             = (case sqrtm p2 of
                  None \<Rightarrow> Inl SqrtmFailed
                | Some c2 \<Rightarrow>
                   (case discard_imag c2 of
                      Inl e \<Rightarrow> Inl e
                    | Inr cm \<Rightarrow> frechet_value (sub_same (atleast_1d mu1) (atleast_1d mu2)) ?s1 ?s2 cm))"
    by (simp add: run cc split: option.splits sum.splits)
  show ?thesis
    using a(1) b(1) shp ents p2 f s by blast
qed

lemma product_example:
  "matmul (Matrix 1 1 (\<lambda>i j. Fin 4)) (Matrix 1 1 (\<lambda>i j. Fin 9)) = Inr (Matrix 1 1 (\<lambda>i j. Fin 36))"
  by (simp add: matmul_def fsum_def)

theorem single_retry_witness:
  "\<exists>p2. calculate_frechet_distance sqrtm_singular
     (Arr1 [Fin 1]) (Arr2 (Matrix 1 1 (\<lambda>i j. Fin 4)))
     (Arr1 [Fin 3]) (Arr2 (Matrix 1 1 (\<lambda>i j. Fin 9))) default_eps
   = ([SqrtmCall (Matrix 1 1 (\<lambda>i j. Fin 36)), PrintSingular default_eps, SqrtmCall p2],
      Inr (Arr0 (Fin 5)))
   \<and> entry p2 0 0 = Fin ((4 + 1 / 1000000) * (9 + 1 / 1000000))"
proof -
  have root: "sqrtm_singular (Matrix 1 1 (\<lambda>i j. Fin 36)) = Some (RealM (Matrix 1 1 (\<lambda>i j. NaN)))"
    by (simp add: sqrtm_singular_def)
  have nonfin: "\<not> all_finite (RealM (Matrix 1 1 (\<lambda>i j. NaN)))"
    by (simp add: entries_def)
  from single_retry [where ?mu1.0 = "Arr1 [Fin 1]" and ?mu2.0 = "Arr1 [Fin 3]"
        and ?sigma1.0 = "Arr2 (Matrix 1 1 (\<lambda>i j. Fin 4))" and ?sigma2.0 = "Arr2 (Matrix 1 1 (\<lambda>i j. Fin 9))"
        and eps = default_eps and sqrtm = sqrtm_singular, unfolded atleast_2d_Arr2,
        OF _ _ product_example root nonfin]
  obtain a b p2 where
    ab: "\<forall>i<nrows a. \<forall>j<ncols a.
               entry a i j = fadd (Fin 4) (fmul (if i = j then Fin 1 else Fin 0) default_eps)
             \<and> entry b i j = fadd (Fin 9) (fmul (if i = j then Fin 1 else Fin 0) default_eps)"
    and sh: "shape2 a = [1, 1]" "shape2 b = [1, 1]"
    and p2: "matmul a b = Inr p2"
    and f: "fst (calculate_frechet_distance sqrtm_singular
     (Arr1 [Fin 1]) (Arr2 (Matrix 1 1 (\<lambda>i j. Fin 4)))
     (Arr1 [Fin 3]) (Arr2 (Matrix 1 1 (\<lambda>i j. Fin 9))) default_eps)
       = [SqrtmCall (Matrix 1 1 (\<lambda>i j. Fin 36)), PrintSingular default_eps, SqrtmCall p2]"
    and s: "snd (calculate_frechet_distance sqrtm_singular
     (Arr1 [Fin 1]) (Arr2 (Matrix 1 1 (\<lambda>i j. Fin 4)))
     (Arr1 [Fin 3]) (Arr2 (Matrix 1 1 (\<lambda>i j. Fin 9))) default_eps)
       = (case sqrtm_singular p2 of
                  None \<Rightarrow> Inl SqrtmFailed
                | Some c2 \<Rightarrow>
                   (case discard_imag c2 of
                      Inl e \<Rightarrow> Inl e
                    | Inr cm \<Rightarrow> frechet_value (sub_same (atleast_1d (Arr1 [Fin 1])) (atleast_1d (Arr1 [Fin 3])))
                                 (Matrix 1 1 (\<lambda>i j. Fin 4)) (Matrix 1 1 (\<lambda>i j. Fin 9)) cm))"
    by (auto simp: shape2_def)
  have e: "entry p2 0 0 = Fin ((4 + 1 / 1000000) * (9 + 1 / 1000000))"
    using ab sh p2 by (auto simp: matmul_def shape2_def fsum_def default_eps_def)
  have v: "snd (calculate_frechet_distance sqrtm_singular
     (Arr1 [Fin 1]) (Arr2 (Matrix 1 1 (\<lambda>i j. Fin 4)))
     (Arr1 [Fin 3]) (Arr2 (Matrix 1 1 (\<lambda>i j. Fin 9))) default_eps) = Inr (Arr0 (Fin 5))"
    unfolding s using e
    by (simp add: sqrtm_singular_def frechet_value_def trace_def diagonal_def fsum_def
        add_scalar_def sub_scalar_def fsub_def)
  show ?thesis
    using f v e by (intro exI [of _ p2]) (simp add: prod_eq_iff)
qed

subsection \<open>Dependence on the square-root routine\<close>




subsection \<open>Promotion of scalars\<close>



section \<open>Properties of calculate_activation_statistics and calculate_fid\<close>

subsection \<open>The generated features\<close>





lemma batch_step_Inr:
  assumes "batch_step e cfg img st = Inr st'"
  shows "map Inr (true_vecs st') = map Inr (true_vecs st) @ [reshape_rows (batch cfg) (features e img)]
       \<and> map Inr (ae_vecs st') = map Inr (ae_vecs st) @
            [reshape_rows (batch cfg)
               (features e (reverse e (sample_z e cfg (draws st) (z_shapes_of e cfg))))]
       \<and> draws st' = draws st + length (z_shapes_of e cfg)"
  using assms
  by (auto simp: batch_step_def Let_def split: sum.splits)

lemma run_batches_trace:
  assumes "run_batches e cfg dl st = Inr st'"
  shows "map Inr (true_vecs st') =
           map Inr (true_vecs st) @ map (\<lambda>b. reshape_rows (batch cfg) (features e (fst b))) dl
       \<and> map Inr (ae_vecs st') = map Inr (ae_vecs st) @
            map (\<lambda>i. reshape_rows (batch cfg)
                   (features e (reverse e
                      (sample_z e cfg (draws st + i * length (z_shapes_of e cfg)) (z_shapes_of e cfg)))))
              [0..<length dl]
       \<and> draws st' = draws st + length dl * length (z_shapes_of e cfg)"
  using assms
proof (induction dl arbitrary: st)
  case Nil
  then show ?case by simp
next
  case (Cons b dl)
  obtain img l where b: "b = (img, l)" by (cases b)
  from Cons.prems b obtain st1 where
    s1: "batch_step e cfg img st = Inr st1" and r: "run_batches e cfg dl st1 = Inr st'"
    by (auto split: sum.splits)
  note h = batch_step_Inr [OF s1]
  note ih = Cons.IH [OF r]
  let ?n = "length (z_shapes_of e cfg)"
  let ?g = "\<lambda>k. reshape_rows (batch cfg)
                   (features e (reverse e (sample_z e cfg k (z_shapes_of e cfg))))"
  have d1: "draws st1 = draws st + ?n"
    using h by simp
  have shift: "map (\<lambda>i. ?g (draws st1 + i * ?n)) [0..<length dl]
      = map (\<lambda>i. ?g (draws st + i * ?n)) (map Suc [0..<length dl])"
    by (simp add: d1 ac_simps)
  have "[0..<Suc n] = 0 # map Suc [0..<n]" for n
    by (simp only: upt_conv_Cons [OF zero_less_Suc] map_Suc_upt)
  then have upt: "[0..<length (b # dl)] = 0 # map Suc [0..<length dl]"
    by simp
  show ?case
    unfolding upt
    using h ih b
    by (simp add: shift add.assoc)
qed


subsection \<open>The two stages of calculate_fid\<close>

lemma statistics_Inr:
  assumes "calculate_activation_statistics e cfg dl = Inr (mu1, s1, mu2, s2)"
  shows "\<exists>true_data ae_data. stacked_features e cfg dl = Inr (true_data, ae_data)
          \<and> mu1 = mean_axis1 true_data \<and> mu2 = mean_axis1 ae_data
          \<and> s1 = np_cov e true_data \<and> s2 = np_cov e ae_data"
  using assms
  by (auto simp: calculate_activation_statistics_def Let_def split: sum.splits)

lemma frechet_of_vectors_scalar:
  assumes "snd (calculate_frechet_distance sq (Arr1 xs) s1 (Arr1 ys) s2 eps) = Inr v"
  shows "\<exists>x. v = Arr0 x"
  using assms
  by (auto simp: calculate_frechet_distance_def Let_def frechet_value_def add_scalar_def
      sub_scalar_def split: if_splits prod.splits sum.splits)
text \<open>
  C6. \<^verbatim>\<open>calculate_fid\<close> is the composition of the two stages, with the default \<^verbatim>\<open>eps\<close>, and
  \<^verbatim>\<open>.item()\<close> on the result; whenever both stages return, the distance is a scalar and
  \<^verbatim>\<open>calculate_fid\<close> returns it as one float.
\<close>

theorem fid_composition:
  "calculate_fid e cfg dl =
     (case calculate_activation_statistics e cfg dl of
        Inl err \<Rightarrow> Inl err
      | Inr (m1, s1, m2, s2) \<Rightarrow>
         (case snd (calculate_frechet_distance (linalg_sqrtm e) m1 s1 m2 s2 default_eps) of
            Inl err \<Rightarrow> Inl err
          | Inr v \<Rightarrow> item v))
   \<and> (\<forall>m1 s1 m2 s2 v.
        calculate_activation_statistics e cfg dl = Inr (m1, s1, m2, s2) \<and>
        snd (calculate_frechet_distance (linalg_sqrtm e) m1 s1 m2 s2 default_eps) = Inr v
        \<longrightarrow> (\<exists>x. v = Arr0 x \<and> calculate_fid e cfg dl = Inr x))"
proof (intro conjI allI impI)
  show "calculate_fid e cfg dl =
     (case calculate_activation_statistics e cfg dl of
        Inl err \<Rightarrow> Inl err
      | Inr (m1, s1, m2, s2) \<Rightarrow>
         (case snd (calculate_frechet_distance (linalg_sqrtm e) m1 s1 m2 s2 default_eps) of
            Inl err \<Rightarrow> Inl err
          | Inr v \<Rightarrow> item v))"
    by (simp add: calculate_fid_def)
next
  fix m1 s1 m2 s2 v
  assume a: "calculate_activation_statistics e cfg dl = Inr (m1, s1, m2, s2) \<and>
        snd (calculate_frechet_distance (linalg_sqrtm e) m1 s1 m2 s2 default_eps) = Inr v"
  then obtain xs ys where "m1 = Arr1 xs" "m2 = Arr1 ys"
    using statistics_Inr [of e cfg dl m1 s1 m2 s2] by (auto simp: mean_axis1_def)
  then obtain x where "v = Arr0 x"
    using a frechet_of_vectors_scalar by blast
  then show "\<exists>x. v = Arr0 x \<and> calculate_fid e cfg dl = Inr x"
    using a by (simp add: calculate_fid_def)
qed

lemma fid_example:
  "calculate_fid example_env (example_config 2) [(two_images, ())] = Inr (Fin 64)"
  by code_simp

theorem fid_composition_witness:
  "\<exists>m1 s1 m2 s2.
     calculate_activation_statistics example_env (example_config 2) [(two_images, ())]
       = Inr (m1, s1, m2, s2)
   \<and> snd (calculate_frechet_distance (linalg_sqrtm example_env) m1 s1 m2 s2 default_eps)
       = Inr (Arr0 (Fin 64))
   \<and> calculate_fid example_env (example_config 2) [(two_images, ())] = Inr (Fin 64)"
proof -
  let ?dl = "[(two_images, ())]"
  obtain m1 s1 m2 s2 v where
    st: "calculate_activation_statistics example_env (example_config 2) ?dl = Inr (m1, s1, m2, s2)"
    and fr: "snd (calculate_frechet_distance (linalg_sqrtm example_env) m1 s1 m2 s2 default_eps) = Inr v"
    using fid_example by (auto simp: calculate_fid_def split: sum.splits)
  from fid_composition [of example_env "example_config 2" ?dl] st fr
  obtain x where "v = Arr0 x" "calculate_fid example_env (example_config 2) ?dl = Inr x"
    by blast
  then show ?thesis
    using st fr fid_example by auto
qed

subsection \<open>The axis of the mean\<close>

text \<open>
  C2. The claim is that the returned means are taken across the samples, one entry for
  each feature dimension. On one batch of two images with three features each the source
  returns the two row means 2 and 6 (\<^verbatim>\<open>mean(axis=1)\<close>, one entry for each sample) beside a
  3 x 3 covariance; the means across the samples are 3, 4 and 5.
\<close>

theorem mean_taken_across_features:
  "map_sum id (\<lambda>(mu1, s1, mu2, s2). (shape mu1, ravel mu1, shape s1, shape mu2, ravel mu2, shape s2))
     (calculate_activation_statistics example_env (example_config 2) [(two_images, ())])
     = Inr ([2], [Fin 2, Fin 6], [3, 3], [2], [Fin 0, Fin 0], [3, 3])
   \<and> ravel (mean_axis0 (numpy two_images)) = [Fin 3, Fin 4, Fin 5]"
  by code_simp

subsection \<open>The batch size\<close>

lemma reshape_rows_iff:
  "reshape_rows n t =
     (if 0 < n \<and> n dvd numel t then Inr (Tensor [n, numel t div n] (tdata t)) else Inl ReshapeError)"
  by (simp add: reshape_rows_def dvd_eq_mod_eq_0)

lemma reshape_rows_shape:
  "reshape_rows n t = Inr t' \<Longrightarrow> tshape t' = [n, numel t div n]"
  by (auto simp: reshape_rows_def split: if_splits)

lemma run_batches_rows:
  assumes "run_batches e cfg dl init_state = Inr st"
    and "t \<in> set (true_vecs st @ ae_vecs st)"
  shows "\<exists>c. tshape t = [batch cfg, c]"
proof -
  let ?f = "\<lambda>b. reshape_rows (batch cfg) (features e (fst b))"
  let ?g = "\<lambda>i. reshape_rows (batch cfg)
                   (features e (reverse e
                      (sample_z e cfg (i * length (z_shapes_of e cfg)) (z_shapes_of e cfg))))"
  have eq1: "map Inr (true_vecs st) = map ?f dl"
    and eq2: "map Inr (ae_vecs st) = map ?g [0..<length dl]"
    using run_batches_trace [OF assms(1)] by (simp_all add: init_state_def)
  have "(Inr t :: error + tensor) \<in> set (map Inr (true_vecs st)) \<union> set (map Inr (ae_vecs st))"
    using assms(2) by auto
  then have "Inr t \<in> set (map ?f dl) \<union> set (map ?g [0..<length dl])"
    unfolding eq1 eq2 .
  then obtain u where "reshape_rows (batch cfg) u = Inr t"
    by auto
  then show ?thesis
    by (simp add: reshape_rows_shape)
qed

lemma numpy_rows: "tshape t = [r, c] \<Longrightarrow> nrows (numpy t) = r"
  by (simp add: numpy_def)

lemma stacked_features_rows:
  assumes "stacked_features e cfg dl = Inr (true_data, ae_data)"
  shows "nrows true_data = batch cfg * length dl \<and> nrows ae_data = batch cfg * length dl"
  using assms
  by (auto simp: stacked_features_def Let_def split: sum.splits
      dest!: reshape_rows_shape intro: numpy_rows)
text \<open>
  C10, as stated, fails: a batch of two images with six features each, under
  \<^verbatim>\<open>config.batch = 4\<close>, is reshaped to 4 rows of 3 without an error, and the stacked
  arrays are built.
\<close>

theorem other_batch_size_reshapes:
  "hd (tshape two_wide_images) = 2 \<and> batch (example_config 4) = 4
   \<and> reshape_rows (batch (example_config 4)) (features example_env two_wide_images)
       = Inr (Tensor [4, 3] (tdata two_wide_images))
   \<and> \<not> isl (stacked_features example_env (example_config 4) [(two_wide_images, ())])"
  by code_simp

text \<open>
  C10, amended. Each per-batch feature tensor is reshaped to \<^verbatim>\<open>config.batch\<close> rows, and when
  the stacked arrays are built they have \<^verbatim>\<open>config.batch * len(dataloader)\<close> rows. The
  reshape of a feature tensor fails exactly when \<^verbatim>\<open>config.batch\<close> is 0 or does not divide
  the number of its elements; a batch of another size fails there only in that case.
\<close>

theorem batch_rows:
  "(wf_tensor t \<longrightarrow> (isl (reshape_rows bs t) \<longleftrightarrow> bs = 0 \<or> \<not> bs dvd prod_list (tshape t)))
   \<and> (\<forall>t'. reshape_rows bs t = Inr t' \<longrightarrow> tshape t' = [bs, numel t div bs])
   \<and> (\<forall>st. run_batches e cfg dl init_state = Inr st \<longrightarrow>
         (\<forall>u \<in> set (true_vecs st @ ae_vecs st). \<exists>c. tshape u = [batch cfg, c]))
   \<and> (\<forall>true_data ae_data. stacked_features e cfg dl = Inr (true_data, ae_data) \<longrightarrow>
         nrows true_data = batch cfg * length dl \<and> nrows ae_data = batch cfg * length dl)"
proof (intro conjI allI impI ballI)
  assume "wf_tensor t"
  then show "isl (reshape_rows bs t) \<longleftrightarrow> bs = 0 \<or> \<not> bs dvd prod_list (tshape t)"
    by (auto simp: reshape_rows_iff wf_tensor_def numel_def)
next
  fix t' assume "reshape_rows bs t = Inr t'"
  then show "tshape t' = [bs, numel t div bs]" by (rule reshape_rows_shape)
next
  fix st u
  assume "run_batches e cfg dl init_state = Inr st" "u \<in> set (true_vecs st @ ae_vecs st)"
  then show "\<exists>c. tshape u = [batch cfg, c]" by (rule run_batches_rows)
next
  fix true_data ae_data
  assume "stacked_features e cfg dl = Inr (true_data, ae_data)"
  then show "nrows true_data = batch cfg * length dl" "nrows ae_data = batch cfg * length dl"
    using stacked_features_rows by blast+
qed

theorem batch_rows_witness:
  "wf_tensor two_images
   \<and> \<not> isl (reshape_rows 2 two_images) \<and> isl (reshape_rows 4 two_images)
   \<and> map_sum id (\<lambda>(true_data, ae_data). (nrows true_data, nrows ae_data))
       (stacked_features example_env (example_config 2) [(two_images, ()), (two_images, ())])
     = Inr (4, 4)"
proof -
  let ?dl = "[(two_images, ()), (two_images, ())]"
  have wf: "wf_tensor two_images"
    by code_simp
  have sh: "tshape two_images = [2, 3]"
    by (simp add: two_images_def)
  have "\<not> isl (stacked_features example_env (example_config 2) ?dl)"
    by code_simp
  then obtain td ad where sf: "stacked_features example_env (example_config 2) ?dl = Inr (td, ad)"
    by (cases "stacked_features example_env (example_config 2) ?dl") auto
  have b: "batch (example_config 2) = 2"
    by (simp add: example_config_def)
  note t2 = batch_rows [of two_images 2 example_env "example_config 2" ?dl]
  note t4 = batch_rows [of two_images 4 example_env "example_config 2" ?dl]
  have "nrows td = 4" "nrows ad = 4"
    using t2 sf b by auto
  moreover have "\<not> isl (reshape_rows 2 two_images)"
    using t2 wf sh by simp
  moreover have "isl (reshape_rows 4 two_images)"
    using t4 wf sh by simp
  ultimately show ?thesis
    using wf sf by simp
qed

end
